theory Spec2Isabelle
  imports Main "HOL-Library.AList"
begin

section \<open>Data model (main.go, lines 27-59)\<close>

text \<open>
  The two stored structs and the four request structs of \<^verbatim>\<open>main.go\<close>. Go allows the
  same field name in several structs; a record field is a constant of the theory, so the
  fields that would clash carry a prefix: \<open>PlayerGameId\<close> is \<^verbatim>\<open>Player.GameId\<close>, the
  \<open>req...\<close> fields are those of the request structs. The three request structs that embed
  \<^verbatim>\<open>GameRequest\<close> are record extensions of it.
\<close>

record Game =
  GameId :: string
  GameName :: string
  HasGameStarted :: bool
  OwnerId :: string

record Player =
  PlayerId :: string
  PlayerName :: string
  PlayerGameId :: string

record GameRequest =
  reqGameId :: string
  reqPlayerId :: string


record JoinGameRequest = GameRequest +
  joinPlayerName :: string

record RemovePlayerRequest = GameRequest +
  PlayerIdToRemove :: string

section \<open>The store client\<close>

text \<open>
  \<^verbatim>\<open>svc\<close> is the client of an external key-value service; its code is not part of the
  repository. It is modelled by what the calls of \<^verbatim>\<open>main.go\<close> rely on:
  \<^item> an item is a list of named attributes; the attribute kinds are those that
    \<^verbatim>\<open>main.go\<close> writes: strings, booleans and \<^verbatim>\<open>NULL\<close>, which the encoder writes for an
    empty string;
  \<^item> a table is a list of items; the primary key of the games table is the string
    attribute \<^verbatim>\<open>gameId\<close>, that of the players table \<^verbatim>\<open>playerId\<close> (the \<^verbatim>\<open>Key\<close> maps of
    the calls), and the index \<^verbatim>\<open>gameIdIndex\<close> of the players table is keyed by \<^verbatim>\<open>gameId\<close>;
  \<^item> a call may be refused for a reason that the tables do not determine (transport,
    throttling, the validation of a key given in the call). The component \<open>faults\<close> of
    the world is the schedule of these refusals: each call consumes its head, \<open>True\<close>
    meaning that this call is refused; an exhausted schedule refuses nothing. A refused
    call changes no table;
  \<^item> a write of an item whose key attribute is not a string, as the \<^verbatim>\<open>NULL\<close> of an empty
    id, fails the validation of the service and changes no table;
  \<^item> \<^verbatim>\<open>log.Printf\<close> appends a line to \<open>logs\<close> (the lines written with \<^verbatim>\<open>fmt.Printf\<close> to
    standard output are not modelled).
  The text of an error of the service is abbreviated to its code.
\<close>

datatype attr = S string | BOOL bool | NULL

type_synonym item = "(string \<times> attr) list"

datatype table = GamesTable | PlayersTable

datatype aws_error =
    ConditionalCheckFailedException
  | TransactionCanceledException
  | ValidationException
  | RequestFailure

datatype cause = Aws aws_error | UnmarshalTypeError

text \<open>
  A Go \<^verbatim>\<open>error\<close> built by \<^verbatim>\<open>fmt.Errorf\<close>: \<open>Errorf m\<close> is a message without a wrapped
  error, \<open>Wrap m c\<close> is \<^verbatim>\<open>fmt.Errorf(m + "%w", c)\<close>.
\<close>

datatype go_error = Errorf string | Wrap string cause

record world =
  games :: "item list"
  players :: "item list"
  faults :: "bool list"
  logs :: "string list"

fun aws_text :: "aws_error \<Rightarrow> string" where
  "aws_text ConditionalCheckFailedException = ''ConditionalCheckFailedException''"
| "aws_text TransactionCanceledException = ''TransactionCanceledException''"
| "aws_text ValidationException = ''ValidationException''"
| "aws_text RequestFailure = ''RequestFailure''"

fun cause_text :: "cause \<Rightarrow> string" where
  "cause_text (Aws e) = aws_text e"
| "cause_text UnmarshalTypeError = ''UnmarshalTypeError''"

fun Error :: "go_error \<Rightarrow> string" where
  "Error (Errorf m) = m"
| "Error (Wrap m c) = m @ cause_text c"

definition Printf :: "string \<Rightarrow> world \<Rightarrow> world" where
  "Printf line w = w\<lparr>logs := logs w @ [line]\<rparr>"

subsection \<open>Marshalling\<close>

text \<open>
  \<^verbatim>\<open>dynamodbattribute.MarshalMap\<close> on the two structs, with the attribute names of their
  \<^verbatim>\<open>dynamodbav\<close> tags. The encoder writes an empty string as \<^verbatim>\<open>NULL\<close> (its option
  \<^verbatim>\<open>NullEmptyString\<close> is on by default). It cannot fail on a struct of strings and
  booleans, so the two \<^verbatim>\<open>failed to marshal\<close> returns of the source are unreachable and
  have no branch here. \<^verbatim>\<open>UnmarshalMap\<close> leaves the zero value in a field whose attribute
  is missing or \<^verbatim>\<open>NULL\<close> and fails on an attribute of the wrong kind.
\<close>

definition encodeString :: "string \<Rightarrow> attr" where
  "encodeString s = (if s = [] then NULL else S s)"

definition MarshalMap_Game :: "Game \<Rightarrow> item" where
  "MarshalMap_Game g =
     [(''gameId'', encodeString (GameId g)), (''gameName'', encodeString (GameName g)),
      (''hasGameStarted'', BOOL (HasGameStarted g)), (''ownerId'', encodeString (OwnerId g))]"

definition MarshalMap_Player :: "Player \<Rightarrow> item" where
  "MarshalMap_Player p =
     [(''playerId'', encodeString (PlayerId p)), (''playerName'', encodeString (PlayerName p)),
      (''gameId'', encodeString (PlayerGameId p))]"

definition decode_string :: "item \<Rightarrow> string \<Rightarrow> string option" where
  "decode_string it a =
     (case map_of it a of
        None \<Rightarrow> Some []
      | Some (S s) \<Rightarrow> Some s
      | Some (BOOL b) \<Rightarrow> None
      | Some NULL \<Rightarrow> Some [])"

definition decode_bool :: "item \<Rightarrow> string \<Rightarrow> bool option" where
  "decode_bool it a =
     (case map_of it a of
        None \<Rightarrow> Some False
      | Some (BOOL b) \<Rightarrow> Some b
      | Some (S s) \<Rightarrow> None
      | Some NULL \<Rightarrow> Some False)"

definition UnmarshalMap_Game :: "item \<Rightarrow> Game option" where
  "UnmarshalMap_Game it =
     (case decode_string it ''gameId'' of None \<Rightarrow> None | Some gid \<Rightarrow>
      case decode_string it ''gameName'' of None \<Rightarrow> None | Some gname \<Rightarrow>
      case decode_bool it ''hasGameStarted'' of None \<Rightarrow> None | Some st \<Rightarrow>
      case decode_string it ''ownerId'' of None \<Rightarrow> None | Some oid \<Rightarrow>
        Some \<lparr>GameId = gid, GameName = gname, HasGameStarted = st, OwnerId = oid\<rparr>)"

definition UnmarshalMap_Player :: "item \<Rightarrow> Player option" where
  "UnmarshalMap_Player it =
     (case decode_string it ''playerId'' of None \<Rightarrow> None | Some pid \<Rightarrow>
      case decode_string it ''playerName'' of None \<Rightarrow> None | Some pname \<Rightarrow>
      case decode_string it ''gameId'' of None \<Rightarrow> None | Some gid \<Rightarrow>
        Some \<lparr>PlayerId = pid, PlayerName = pname, PlayerGameId = gid\<rparr>)"

subsection \<open>Tables\<close>

fun key_attr :: "table \<Rightarrow> string" where
  "key_attr GamesTable = ''gameId''"
| "key_attr PlayersTable = ''playerId''"

fun table_of :: "table \<Rightarrow> world \<Rightarrow> item list" where
  "table_of GamesTable w = games w"
| "table_of PlayersTable w = players w"

fun with_table :: "table \<Rightarrow> item list \<Rightarrow> world \<Rightarrow> world" where
  "with_table GamesTable tb w = w\<lparr>games := tb\<rparr>"
| "with_table PlayersTable tb w = w\<lparr>players := tb\<rparr>"

definition has_key :: "string \<Rightarrow> string \<Rightarrow> item \<Rightarrow> bool" where
  "has_key ka k it = (map_of it ka = Some (S k))"

definition lookup_item :: "string \<Rightarrow> string \<Rightarrow> item list \<Rightarrow> item option" where
  "lookup_item ka k tb = find (has_key ka k) tb"

definition remove_item :: "string \<Rightarrow> string \<Rightarrow> item list \<Rightarrow> item list" where
  "remove_item ka k tb = filter (\<lambda>it. \<not> has_key ka k it) tb"

definition key_of :: "table \<Rightarrow> item \<Rightarrow> string option" where
  "key_of t it = (case map_of it (key_attr t) of Some (S k) \<Rightarrow> Some k | _ \<Rightarrow> None)"

text \<open>
  \<open>refused w\<close>: the next call of the client is refused; \<open>advance w\<close>: the world after
  a call has consumed its entry of the schedule. \<open>answered n w\<close>: none of the next \<open>n\<close>
  calls is refused.
\<close>

definition refused :: "world \<Rightarrow> bool" where
  "refused w = (case faults w of [] \<Rightarrow> False | f # fs \<Rightarrow> f)"

definition advance :: "world \<Rightarrow> world" where
  "advance w = w\<lparr>faults := tl (faults w)\<rparr>"

definition answered :: "nat \<Rightarrow> world \<Rightarrow> bool" where
  "answered n w = (True \<notin> set (take n (faults w)))"

subsection \<open>The calls of the client\<close>

text \<open>\<^verbatim>\<open>svc.GetItem\<close> with the key \<open>k\<close>: \<open>None\<close> is a result whose \<^verbatim>\<open>Item\<close> is nil.\<close>

definition svc_GetItem :: "table \<Rightarrow> string \<Rightarrow> world \<Rightarrow> (aws_error + item option) \<times> world" where
  "svc_GetItem t k w =
     (if refused w then (Inl RequestFailure, advance w)
      else (Inr (lookup_item (key_attr t) k (table_of t w)), advance w))"

text \<open>\<^verbatim>\<open>svc.DeleteItem\<close>: deleting a key that is absent is not an error.\<close>

definition svc_DeleteItem :: "table \<Rightarrow> string \<Rightarrow> world \<Rightarrow> (aws_error + unit) \<times> world" where
  "svc_DeleteItem t k w =
     (if refused w then (Inl RequestFailure, advance w)
      else (Inr (), with_table t (remove_item (key_attr t) k (table_of t w)) (advance w)))"

text \<open>
  A put under the condition \<^verbatim>\<open>attribute_not_exists(<key attribute>)\<close>: the condition is
  evaluated on the stored item with the key of the new one, which has its key attribute,
  so it holds exactly when no item has that key. An item without a string key fails the
  validation, which comes before the condition.
\<close>

definition put_allowed :: "world \<Rightarrow> table \<times> item \<Rightarrow> bool" where
  "put_allowed w p =
     (case key_of (fst p) (snd p) of None \<Rightarrow> False
      | Some k \<Rightarrow> lookup_item (key_attr (fst p)) k (table_of (fst p) w) = None)"

definition put_new :: "table \<times> item \<Rightarrow> world \<Rightarrow> world" where
  "put_new p w = with_table (fst p) (table_of (fst p) w @ [snd p]) w"

definition svc_PutItem :: "table \<Rightarrow> item \<Rightarrow> world \<Rightarrow> (aws_error + unit) \<times> world" where
  "svc_PutItem t it w =
     (if refused w then (Inl RequestFailure, advance w)
      else if key_of t it = None then (Inl ValidationException, advance w)
      else if \<not> put_allowed w (t, it) then (Inl ConditionalCheckFailedException, advance w)
      else (Inr (), put_new (t, it) (advance w)))"


text \<open>
  \<^verbatim>\<open>svc.UpdateItem\<close> with \<^verbatim>\<open>SET a = v\<close> and no condition: the attribute is set in the item
  with the key \<open>k\<close>; when there is none, the service creates the item from the key and
  the attribute.
\<close>

definition svc_UpdateItem ::
  "table \<Rightarrow> string \<Rightarrow> string \<Rightarrow> attr \<Rightarrow> world \<Rightarrow> (aws_error + unit) \<times> world" where
  "svc_UpdateItem t k a v w =
     (if refused w then (Inl RequestFailure, advance w)
      else (Inr (),
        with_table t
          (case lookup_item (key_attr t) k (table_of t w) of
             None \<Rightarrow> table_of t w @ ([(key_attr t, S k), (a, v)] # [])
           | Some old \<Rightarrow>
               map (\<lambda>it. if has_key (key_attr t) k it then AList.update a v it else it)
                 (table_of t w))
          (advance w)))"

text \<open>\<^verbatim>\<open>svc.Query\<close> on an index keyed by the string attribute \<open>a\<close>, for the value \<open>v\<close>.\<close>

definition svc_Query :: "table \<Rightarrow> string \<Rightarrow> string \<Rightarrow> world \<Rightarrow> (aws_error + item list) \<times> world" where
  "svc_Query t a v w =
     (if refused w then (Inl RequestFailure, advance w)
      else (Inr (filter (has_key a v) (table_of t w)), advance w))"

section \<open>The operations (main.go, lines 75-425)\<close>


definition CreatePlayer :: "JoinGameRequest \<Rightarrow> world \<Rightarrow> (go_error + unit) \<times> world" where
  "CreatePlayer gameRequest w =
     (let itemToWrite = \<lparr>PlayerId = reqPlayerId gameRequest,
                         PlayerName = joinPlayerName gameRequest,
                         PlayerGameId = reqGameId gameRequest\<rparr>;
          av = MarshalMap_Player itemToWrite
      in case svc_PutItem PlayersTable av w of
           (Inl err, w1) \<Rightarrow> (Inl (Wrap ''failed to put item into DynamoDB: '' (Aws err)), w1)
         | (Inr u, w1) \<Rightarrow> (Inr (), w1))"

definition JoinGame :: "JoinGameRequest \<Rightarrow> world \<Rightarrow> (go_error + unit) \<times> world" where
  "JoinGame gameRequest w =
     (case svc_GetItem GamesTable (reqGameId gameRequest) w of
        (Inl err, w1) \<Rightarrow> (Inl (Wrap ''failed to query DynamoDB: '' (Aws err)), w1)
      | (Inr None, w1) \<Rightarrow> (Inl (Errorf (''game '' @ reqGameId gameRequest @ '' not found'')), w1)
      | (Inr (Some it), w1) \<Rightarrow> (Inr (), w1))"

definition IsGameOwner :: "string \<Rightarrow> string \<Rightarrow> world \<Rightarrow> (go_error + bool) \<times> world" where
  "IsGameOwner gameId playerId w =
     (case svc_GetItem GamesTable gameId w of
        (Inl err, w1) \<Rightarrow> (Inl (Wrap ''failed to get game: '' (Aws err)), w1)
      | (Inr None, w1) \<Rightarrow> (Inl (Errorf (''game with ID '' @ gameId @ '' not found'')), w1)
      | (Inr (Some it), w1) \<Rightarrow>
          (case UnmarshalMap_Game it of
             None \<Rightarrow> (Inl (Wrap ''failed to unmarshal game: '' UnmarshalTypeError), w1)
           | Some game \<Rightarrow> (Inr (OwnerId game = playerId), w1)))"

text \<open>The loop of \<^verbatim>\<open>DeleteGame\<close> over the items of the query result (lines 243-261).\<close>

fun DeleteGame_players :: "item list \<Rightarrow> world \<Rightarrow> world" where
  "DeleteGame_players [] w = w"
| "DeleteGame_players (it # items) w =
     (case UnmarshalMap_Player it of
        None \<Rightarrow>
          DeleteGame_players items
            (Printf (''Failed to unmarshal player: '' @ cause_text UnmarshalTypeError) w)
      | Some player \<Rightarrow>
          (case svc_DeleteItem PlayersTable (PlayerId player) w of
             (Inl err, w1) \<Rightarrow>
               DeleteGame_players items
                 (Printf (''Failed to delete player '' @ PlayerId player @ '': '' @ aws_text err) w1)
           | (Inr u, w1) \<Rightarrow>
               DeleteGame_players items (Printf (''Deleted player: '' @ PlayerId player) w1)))"

definition DeleteGame :: "GameRequest \<Rightarrow> world \<Rightarrow> (go_error + unit) \<times> world" where
  "DeleteGame gameRequest w =
     (case IsGameOwner (reqGameId gameRequest) (reqPlayerId gameRequest) w of
        (Inl err, w1) \<Rightarrow> (Inl err, w1)
      | (Inr isOwner, w1) \<Rightarrow>
          if \<not> isOwner
          then (Inl (Errorf ''unauthorized: only the game owner can delete this game''), w1)
          else
            (case svc_DeleteItem GamesTable (reqGameId gameRequest) w1 of
               (Inl err, w2) \<Rightarrow> (Inl (Wrap ''failed to delete game: '' (Aws err)), w2)
             | (Inr u, w2) \<Rightarrow>
                 (case svc_Query PlayersTable ''gameId'' (reqGameId gameRequest)
                         (Printf (''Deleted game: '' @ reqGameId gameRequest) w2) of
                    (Inl err, w3) \<Rightarrow>
                      (Inl (Wrap ''failed to query players by gameId: '' (Aws err)), w3)
                  | (Inr items, w3) \<Rightarrow> (Inr (), DeleteGame_players items w3))))"

definition RemovePlayer :: "RemovePlayerRequest \<Rightarrow> world \<Rightarrow> (go_error + unit) \<times> world" where
  "RemovePlayer removePlayerRequest w =
     (case IsGameOwner (reqGameId removePlayerRequest) (reqPlayerId removePlayerRequest) w of
        (Inl err, w1) \<Rightarrow> (Inl err, w1)
      | (Inr isOwner, w1) \<Rightarrow>
          if \<not> isOwner
          then (Inl (Errorf ''unauthorized: only the game owner can remove a player''), w1)
          else
            (case svc_DeleteItem PlayersTable (PlayerIdToRemove removePlayerRequest) w1 of
               (Inl err, w2) \<Rightarrow> (Inl (Wrap ''failed to remove player: '' (Aws err)), w2)
             | (Inr u, w2) \<Rightarrow>
                 (Inr (), Printf (''Removed player: '' @ reqGameId removePlayerRequest) w2)))"

definition SetGameState :: "bool \<Rightarrow> string \<Rightarrow> world \<Rightarrow> (go_error + unit) \<times> world" where
  "SetGameState state gameId w =
     (case svc_UpdateItem GamesTable gameId ''hasGameStarted'' (BOOL state) w of
        (Inl err, w1) \<Rightarrow> (Inl (Wrap ''failed to update game state: '' (Aws err)), w1)
      | (Inr u, w1) \<Rightarrow> (Inr (), w1))"

definition StartGame :: "GameRequest \<Rightarrow> world \<Rightarrow> (go_error + unit) \<times> world" where
  "StartGame gameRequest w =
     (case IsGameOwner (reqGameId gameRequest) (reqPlayerId gameRequest) w of
        (Inl err, w1) \<Rightarrow> (Inl err, w1)
      | (Inr isOwner, w1) \<Rightarrow>
          if \<not> isOwner
          then (Inl (Errorf ''unauthorized: only the game owner can start this game''), w1)
          else
            (case SetGameState True (reqGameId gameRequest) w1 of
               (Inl err, w2) \<Rightarrow> (Inl err, w2)
             | (Inr u, w2) \<Rightarrow> (Inr (), w2)))"

definition EndGame :: "GameRequest \<Rightarrow> world \<Rightarrow> (go_error + unit) \<times> world" where
  "EndGame gameRequest w =
     (case IsGameOwner (reqGameId gameRequest) (reqPlayerId gameRequest) w of
        (Inl err, w1) \<Rightarrow> (Inl err, w1)
      | (Inr isOwner, w1) \<Rightarrow>
          if \<not> isOwner
          then (Inl (Errorf ''unauthorized: only the game owner can end this game''), w1)
          else
            (case SetGameState False (reqGameId gameRequest) w1 of
               (Inl err, w2) \<Rightarrow> (Inl err, w2)
             | (Inr u, w2) \<Rightarrow> (Inr (), w2)))"

text \<open>The loop of \<^verbatim>\<open>PlayerList\<close> over the items of the query result (lines 371-378).\<close>

fun PlayerList_items :: "item list \<Rightarrow> Player list \<Rightarrow> world \<Rightarrow> Player list \<times> world" where
  "PlayerList_items [] playerList w = (playerList, w)"
| "PlayerList_items (it # items) playerList w =
     (case UnmarshalMap_Player it of
        None \<Rightarrow>
          PlayerList_items items playerList
            (Printf (''Failed to unmarshal player: '' @ cause_text UnmarshalTypeError) w)
      | Some player \<Rightarrow> PlayerList_items items (playerList @ [player]) w)"

definition PlayerList :: "GameRequest \<Rightarrow> world \<Rightarrow> (go_error + Player list) \<times> world" where
  "PlayerList gameRequest w =
     (case IsGameOwner (reqGameId gameRequest) (reqPlayerId gameRequest) w of
        (Inl err, w1) \<Rightarrow> (Inl err, w1)
      | (Inr isOwner, w1) \<Rightarrow>
          if \<not> isOwner
          then (Inl (Errorf ''unauthorized: only the game owner can end this game''), w1)
          else
            (case svc_Query PlayersTable ''gameId'' (reqGameId gameRequest) w1 of
               (Inl err, w2) \<Rightarrow>
                 (Inl (Wrap ''failed to query players by gameId: '' (Aws err)), w2)
             | (Inr items, w2) \<Rightarrow>
                 (case PlayerList_items items [] w2 of
                    (playerList, w3) \<Rightarrow> (Inr playerList, w3))))"

definition LeaveGame :: "GameRequest \<Rightarrow> world \<Rightarrow> (go_error + unit) \<times> world" where
  "LeaveGame gameRequest w =
     (case svc_DeleteItem PlayersTable (reqPlayerId gameRequest) w of
        (Inl err, w1) \<Rightarrow> (Inl (Wrap ''failed to remove player: '' (Aws err)), w1)
      | (Inr u, w1) \<Rightarrow> (Inr (), Printf (''Removed Player: '' @ reqPlayerId gameRequest) w1))"

definition GameState :: "GameRequest \<Rightarrow> world \<Rightarrow> (go_error + bool) \<times> world" where
  "GameState gameRequest w =
     (case svc_GetItem GamesTable (reqGameId gameRequest) w of
        (Inl err, w1) \<Rightarrow> (Inl (Wrap ''failed to get game: '' (Aws err)), w1)
      | (Inr None, w1) \<Rightarrow>
          (Inl (Errorf (''game with ID '' @ reqGameId gameRequest @ '' not found'')), w1)
      | (Inr (Some it), w1) \<Rightarrow>
          (case UnmarshalMap_Game it of
             None \<Rightarrow> (Inl (Wrap ''failed to unmarshal game: '' UnmarshalTypeError), w1)
           | Some game \<Rightarrow> (Inr (HasGameStarted game), w1)))"

section \<open>The join handler (main.go, lines 488-530)\<close>

text \<open>
  \<^verbatim>\<open>handleJoinGame\<close> is the only caller of \<^verbatim>\<open>JoinGame\<close> and \<^verbatim>\<open>CreatePlayer\<close>: it runs the
  check and then the write, and it is where the errors of the two steps become a status.
  The request body is taken decoded: \<open>None\<close> is a body that \<^verbatim>\<open>json.Unmarshal\<close> rejects.
  \<open>aws_code\<close> is \<^verbatim>\<open>errors.As\<close> to an \<^verbatim>\<open>awserr.Error\<close> followed by \<^verbatim>\<open>Code()\<close>.
\<close>

record APIGatewayProxyResponse =
  StatusCode :: int
  Body :: string
  Headers :: "(string \<times> string) list"

fun aws_code :: "go_error \<Rightarrow> aws_error option" where
  "aws_code (Wrap m (Aws e)) = Some e"
| "aws_code (Wrap m UnmarshalTypeError) = None"
| "aws_code (Errorf m) = None"

definition handleJoinGame ::
  "JoinGameRequest option \<Rightarrow> world \<Rightarrow> APIGatewayProxyResponse \<times> world" where
  \<open>handleJoinGame request w =
     (case request of
        None \<Rightarrow>
          (\<lparr>StatusCode = 400, Body = ''Invalid JSON in request body'', Headers = []\<rparr>, w)
      | Some body \<Rightarrow>
          (case JoinGame body w of
             (Inl err, w1) \<Rightarrow>
               (\<lparr>StatusCode = 404, Body = ''Game not found: '' @ Error err, Headers = []\<rparr>, w1)
           | (Inr u, w1) \<Rightarrow>
               (case CreatePlayer body w1 of
                  (Inl err, w2) \<Rightarrow>
                    if aws_code err = Some ConditionalCheckFailedException
                    then (\<lparr>StatusCode = 409, Body = ''Player already exists in this game'',
                           Headers = []\<rparr>, w2)
                    else (\<lparr>StatusCode = 500,
                           Body = ''Failed to create player: '' @ Error err, Headers = []\<rparr>, w2)
                | (Inr u, w2) \<Rightarrow>
                    (\<lparr>StatusCode = 200,
                      Body = ''{"message": "Player '' @ joinPlayerName body @ '' joined game ''
                             @ reqGameId body @ ''"}'',
                      Headers = [(''Content-Type'', ''application/json'')]\<rparr>, w2))))\<close>

section \<open>Observations and a scenario\<close>

text \<open>
  The Session and the Member records as the operations read them: the item found under the
  key, decoded. \<open>new_logs w w'\<close> are the lines logged between \<open>w\<close> and \<open>w'\<close>.
\<close>

definition stored_game :: "string \<Rightarrow> world \<Rightarrow> Game option" where
  "stored_game g w =
     (case lookup_item ''gameId'' g (games w) of None \<Rightarrow> None
      | Some it \<Rightarrow> UnmarshalMap_Game it)"

definition stored_player :: "string \<Rightarrow> world \<Rightarrow> Player option" where
  "stored_player p w =
     (case lookup_item ''playerId'' p (players w) of None \<Rightarrow> None
      | Some it \<Rightarrow> UnmarshalMap_Player it)"

definition new_logs :: "world \<Rightarrow> world \<Rightarrow> string list" where
  "new_logs w w' = drop (length (logs w)) (logs w')"

text \<open>
  \<open>consumed n fs\<close>: what the schedule \<open>fs\<close> says of the next \<open>n\<close> calls, in order
  (\<open>True\<close>: refused). \<open>decoded_players items\<close>: the records of a query result that
  decode, in order.
\<close>

fun consumed :: "nat \<Rightarrow> bool list \<Rightarrow> bool list" where
  "consumed 0 fs = []"
| "consumed (Suc n) [] = False # consumed n []"
| "consumed (Suc n) (f # fs) = f # consumed n fs"

definition decoded_players :: "item list \<Rightarrow> Player list" where
  "decoded_players items = List.map_filter UnmarshalMap_Player items"

text \<open>
  Two sessions: \<open>S1\<close>, owned by \<open>P1\<close>, with the members \<open>P1\<close> and \<open>P2\<close>; \<open>S2\<close>, owned by
  \<open>P3\<close>, with the member \<open>P3\<close>. No call is refused.
\<close>

definition example_world :: world where
  "example_world =
     \<lparr>games =
        [MarshalMap_Game \<lparr>GameId = ''S1'', GameName = ''Settlers'', HasGameStarted = False,
                          OwnerId = ''P1''\<rparr>,
         MarshalMap_Game \<lparr>GameId = ''S2'', GameName = ''Chess'', HasGameStarted = True,
                          OwnerId = ''P3''\<rparr>],
      players =
        [MarshalMap_Player \<lparr>PlayerId = ''P1'', PlayerName = ''Ann'', PlayerGameId = ''S1''\<rparr>,
         MarshalMap_Player \<lparr>PlayerId = ''P2'', PlayerName = ''Bob'', PlayerGameId = ''S1''\<rparr>,
         MarshalMap_Player \<lparr>PlayerId = ''P3'', PlayerName = ''Cy'', PlayerGameId = ''S2''\<rparr>],
      faults = [], logs = []\<rparr>"

text \<open>The same with a third member of \<open>S1\<close>, \<open>P4\<close>.\<close>

definition example_world_three :: world where
  "example_world_three =
     example_world\<lparr>players := players example_world @
        [MarshalMap_Player \<lparr>PlayerId = ''P4'', PlayerName = ''Dan'', PlayerGameId = ''S1''\<rparr>]\<rparr>"


section \<open>Basic facts\<close>

lemmas example_defs = example_world_def MarshalMap_Game_def MarshalMap_Player_def
  encodeString_def lookup_item_def has_key_def UnmarshalMap_Game_def UnmarshalMap_Player_def
  decode_string_def decode_bool_def answered_def remove_item_def refused_def
  stored_game_def stored_player_def

lemma advance_simps [simp]:
  "games (advance w) = games w" "players (advance w) = players w"
  "logs (advance w) = logs w" "faults (advance w) = tl (faults w)"
  by (simp_all add: advance_def)

lemma Printf_simps [simp]:
  "games (Printf l w) = games w" "players (Printf l w) = players w"
  "logs (Printf l w) = logs w @ [l]" "faults (Printf l w) = faults w"
  by (simp_all add: Printf_def)

lemma refused_Printf [simp]: "refused (Printf l w) = refused w"
  by (simp add: refused_def)

lemma refused_update [simp]:
  "refused (w\<lparr>games := tb\<rparr>) = refused w" "refused (w\<lparr>players := tb\<rparr>) = refused w"
  by (simp_all add: refused_def)

lemma advance_update:
  "advance (w\<lparr>games := tb\<rparr>) = (advance w)\<lparr>games := tb\<rparr>"
  "advance (w\<lparr>players := tb\<rparr>) = (advance w)\<lparr>players := tb\<rparr>"
  "advance (Printf l w) = Printf l (advance w)"
  by (simp_all add: advance_def Printf_def)

lemma answered_not_refused: "answered n w \<Longrightarrow> 0 < n \<Longrightarrow> \<not> refused w"
  by (cases n; cases "faults w") (auto simp: answered_def refused_def)

lemma answered_advance: "answered n w \<Longrightarrow> answered (n - 1) (advance w)"
  by (cases n; cases "faults w") (auto simp: answered_def dest: in_set_takeD)

lemma faults_take3:
  assumes "take 3 (faults w) = [a, b, c]"
  shows "refused w = a" "refused (advance w) = b" "refused (advance (advance w)) = c"
proof -
  have "faults w = [a, b, c] @ drop 3 (faults w)"
    using assms append_take_drop_id [of 3 "faults w"] by simp
  then obtain fs where "faults w = a # b # c # fs" by simp
  then show "refused w = a" "refused (advance w) = b" "refused (advance (advance w)) = c"
    by (simp_all add: refused_def)
qed

lemma lookup_remove_same [simp]: "lookup_item ka k (remove_item ka k tb) = None"
  by (simp add: lookup_item_def remove_item_def find_None_iff)

lemma remove_absent: "lookup_item ka k tb = None \<Longrightarrow> remove_item ka k tb = tb"
  by (simp add: lookup_item_def remove_item_def find_None_iff filter_id_conv)


lemma Unmarshal_Marshal_Game [simp]: "UnmarshalMap_Game (MarshalMap_Game g) = Some g"
  by (simp add: UnmarshalMap_Game_def MarshalMap_Game_def encodeString_def decode_string_def
      decode_bool_def)

lemma Unmarshal_Marshal_Player [simp]: "UnmarshalMap_Player (MarshalMap_Player p) = Some p"
  by (simp add: UnmarshalMap_Player_def MarshalMap_Player_def encodeString_def
      decode_string_def)

lemma key_of_Marshal [simp]:
  "key_of GamesTable (MarshalMap_Game g) = (if GameId g = [] then None else Some (GameId g))"
  "key_of PlayersTable (MarshalMap_Player p)
     = (if PlayerId p = [] then None else Some (PlayerId p))"
  by (simp_all add: key_of_def MarshalMap_Game_def MarshalMap_Player_def encodeString_def)

lemma has_key_Marshal [simp]:
  "has_key ''gameId'' k (MarshalMap_Game g) = (GameId g = k \<and> k \<noteq> [])"
  "has_key ''playerId'' k (MarshalMap_Player p) = (PlayerId p = k \<and> k \<noteq> [])"
  by (auto simp: has_key_def MarshalMap_Game_def MarshalMap_Player_def encodeString_def)

subsection \<open>The authorization read\<close>

lemma IsGameOwner_frame:
  "games (snd (IsGameOwner g p w)) = games w \<and> players (snd (IsGameOwner g p w)) = players w"
  by (simp add: IsGameOwner_def svc_GetItem_def split: option.splits)

lemma IsGameOwner_absent:
  "\<not> refused w \<Longrightarrow> lookup_item ''gameId'' g (games w) = None \<Longrightarrow>
   IsGameOwner g p w = (Inl (Errorf (''game with ID '' @ g @ '' not found'')), advance w)"
  by (simp add: IsGameOwner_def svc_GetItem_def)

lemma IsGameOwner_stored:
  "\<not> refused w \<Longrightarrow> stored_game g w = Some game \<Longrightarrow>
   IsGameOwner g p w = (Inr (OwnerId game = p), advance w)"
  by (auto simp: stored_game_def IsGameOwner_def svc_GetItem_def split: option.splits)

lemma example_stored_S1:
  "stored_game ''S1'' (example_world\<lparr>faults := fs\<rparr>)
     = Some \<lparr>GameId = ''S1'', GameName = ''Settlers'', HasGameStarted = False,
             OwnerId = ''P1''\<rparr>"
  by (simp add: example_defs)

subsection \<open>Setting the started flag\<close>

lemma answered_mono: "answered n w \<Longrightarrow> m \<le> n \<Longrightarrow> answered m w"
  using set_take_subset_set_take [of m n "faults w"] by (auto simp: answered_def)

lemma answered_drop:
  assumes "answered (k + n) w" and "faults w' = drop k (faults w)"
  shows "answered n w'"
proof -
  have "take n (drop k (faults w)) = drop k (take (k + n) (faults w))"
    by (simp add: drop_take)
  then have "set (take n (faults w')) \<subseteq> set (take (k + n) (faults w))"
    using assms(2) set_drop_subset [of k "take (k + n) (faults w)"] by simp
  then show ?thesis
    using assms(1) by (auto simp: answered_def)
qed

lemma has_key_update: "a \<noteq> ka \<Longrightarrow> has_key ka k (AList.update a v it) = has_key ka k it"
  by (simp add: has_key_def update_conv')

lemma lookup_map_matching:
  assumes "\<And>it. has_key ka k (f it) = has_key ka k it"
  shows "lookup_item ka k (map (\<lambda>it. if has_key ka k it then f it else it) tb)
           = map_option f (lookup_item ka k tb)"
  by (induction tb) (simp_all add: lookup_item_def assms)

lemma Unmarshal_started:
  "UnmarshalMap_Game it = Some game \<Longrightarrow>
   UnmarshalMap_Game (AList.update ''hasGameStarted'' (BOOL b) it)
     = Some (game\<lparr>HasGameStarted := b\<rparr>)"
  by (auto simp: UnmarshalMap_Game_def decode_string_def decode_bool_def update_conv'
      split: option.splits attr.splits)

lemma SetGameState_stored:
  assumes "\<not> refused w" and "stored_game g w = Some game"
  shows "fst (SetGameState b g w) = Inr ()"
    and "stored_game g (snd (SetGameState b g w)) = Some (game\<lparr>HasGameStarted := b\<rparr>)"
    and "players (snd (SetGameState b g w)) = players w"
    and "faults (snd (SetGameState b g w)) = tl (faults w)"
proof -
  obtain it where it: "lookup_item ''gameId'' g (games w) = Some it"
    and un: "UnmarshalMap_Game it = Some game"
    using assms(2) by (auto simp: stored_game_def split: option.splits)
  have w': "snd (SetGameState b g w)
      = (advance w)\<lparr>games := map (\<lambda>it. if has_key ''gameId'' g it
            then AList.update ''hasGameStarted'' (BOOL b) it else it) (games w)\<rparr>"
    using assms(1) it by (simp add: SetGameState_def svc_UpdateItem_def)
  show "fst (SetGameState b g w) = Inr ()"
    using assms(1) by (simp add: SetGameState_def svc_UpdateItem_def)
  have "lookup_item ''gameId'' g (games (snd (SetGameState b g w)))
          = Some (AList.update ''hasGameStarted'' (BOOL b) it)"
    unfolding w' using it
    by (simp add: lookup_map_matching [where f = "AList.update ''hasGameStarted'' (BOOL b)"]
        has_key_update)
  then show "stored_game g (snd (SetGameState b g w)) = Some (game\<lparr>HasGameStarted := b\<rparr>)"
    using Unmarshal_started [OF un] by (simp add: stored_game_def)
  show "players (snd (SetGameState b g w)) = players w"
    unfolding w' by simp
  show "faults (snd (SetGameState b g w)) = tl (faults w)"
    unfolding w' by simp
qed

lemma StartGame_owner:
  assumes "answered 2 w" and "stored_game (reqGameId r) w = Some game"
    and "OwnerId game = reqPlayerId r"
  shows "fst (StartGame r w) = Inr ()"
    and "stored_game (reqGameId r) (snd (StartGame r w)) = Some (game\<lparr>HasGameStarted := True\<rparr>)"
    and "players (snd (StartGame r w)) = players w"
    and "faults (snd (StartGame r w)) = drop 2 (faults w)"
proof -
  have nr: "\<not> refused w"
    using assms(1) by (rule answered_not_refused) simp
  have "answered 1 (advance w)"
    using answered_advance [OF assms(1)] by simp
  then have nr2: "\<not> refused (advance w)"
    by (rule answered_not_refused) simp
  have st: "stored_game (reqGameId r) (advance w) = Some game"
    using assms(2) by (simp add: stored_game_def)
  have own: "IsGameOwner (reqGameId r) (reqPlayerId r) w = (Inr True, advance w)"
    using IsGameOwner_stored [OF nr assms(2), of "reqPlayerId r"] assms(3) by simp
  note s = SetGameState_stored [OF nr2 st, of True]
  have eq: "StartGame r w = (Inr (), snd (SetGameState True (reqGameId r) (advance w)))"
    using s(1)
    by (cases "SetGameState True (reqGameId r) (advance w)") (auto simp: StartGame_def own)
  show "fst (StartGame r w) = Inr ()"
    by (simp add: eq)
  show "stored_game (reqGameId r) (snd (StartGame r w)) = Some (game\<lparr>HasGameStarted := True\<rparr>)"
    using s(2) by (simp add: eq)
  show "players (snd (StartGame r w)) = players w"
    using s(3) by (simp add: eq)
  show "faults (snd (StartGame r w)) = drop 2 (faults w)"
    using s(4) by (simp add: eq drop_Suc numeral_2_eq_2 drop_tl tl_drop)
qed

lemma EndGame_owner:
  assumes "answered 2 w" and "stored_game (reqGameId r) w = Some game"
    and "OwnerId game = reqPlayerId r"
  shows "fst (EndGame r w) = Inr ()"
    and "stored_game (reqGameId r) (snd (EndGame r w)) = Some (game\<lparr>HasGameStarted := False\<rparr>)"
    and "players (snd (EndGame r w)) = players w"
    and "faults (snd (EndGame r w)) = drop 2 (faults w)"
proof -
  have nr: "\<not> refused w"
    using assms(1) by (rule answered_not_refused) simp
  have "answered 1 (advance w)"
    using answered_advance [OF assms(1)] by simp
  then have nr2: "\<not> refused (advance w)"
    by (rule answered_not_refused) simp
  have st: "stored_game (reqGameId r) (advance w) = Some game"
    using assms(2) by (simp add: stored_game_def)
  have own: "IsGameOwner (reqGameId r) (reqPlayerId r) w = (Inr True, advance w)"
    using IsGameOwner_stored [OF nr assms(2), of "reqPlayerId r"] assms(3) by simp
  note s = SetGameState_stored [OF nr2 st, of False]
  have eq: "EndGame r w = (Inr (), snd (SetGameState False (reqGameId r) (advance w)))"
    using s(1)
    by (cases "SetGameState False (reqGameId r) (advance w)") (auto simp: EndGame_def own)
  show "fst (EndGame r w) = Inr ()"
    by (simp add: eq)
  show "stored_game (reqGameId r) (snd (EndGame r w)) = Some (game\<lparr>HasGameStarted := False\<rparr>)"
    using s(2) by (simp add: eq)
  show "players (snd (EndGame r w)) = players w"
    using s(3) by (simp add: eq)
  show "faults (snd (EndGame r w)) = drop 2 (faults w)"
    using s(4) by (simp add: eq drop_Suc numeral_2_eq_2 drop_tl tl_drop)
qed

subsection \<open>The cascade of DeleteGame\<close>

lemma svc_DeleteItem_players:
  "svc_DeleteItem PlayersTable k w =
     (if refused w then (Inl RequestFailure, advance w)
      else (Inr (), (advance w)\<lparr>players := remove_item ''playerId'' k (players w)\<rparr>))"
  by (simp add: svc_DeleteItem_def)

lemma DeleteGame_players_games [simp]: "games (DeleteGame_players its w) = games w"
  by (induction its arbitrary: w) (auto simp: svc_DeleteItem_players split: option.splits)


lemma consumed_step:
  "consumed (Suc n) (faults w) = refused w # consumed n (faults (advance w))"
  by (cases "faults w") (simp_all add: refused_def)

lemma length_consumed [simp]: "length (consumed n fs) = n"
  by (induction n fs rule: consumed.induct) simp_all



lemma decoded_players_simps [simp]:
  "decoded_players [] = []"
  "decoded_players (it # its) =
     (case UnmarshalMap_Player it of None \<Rightarrow> decoded_players its
      | Some p \<Rightarrow> p # decoded_players its)"
  by (simp_all add: decoded_players_def map_filter_simps split: option.splits)



text \<open>
  The players table after the loop: an item stays exactly when no answered delete of the
  loop had its key. The deletes are those of the decodable records, in order, each with
  its own entry of the schedule.
\<close>

lemma DeleteGame_players_table:
  "players (DeleteGame_players its w) =
     filter
       (\<lambda>it. \<forall>(p, f) \<in> set (zip (decoded_players its)
                          (consumed (length (decoded_players its)) (faults w))).
               f \<or> \<not> has_key ''playerId'' (PlayerId p) it)
       (players w)"
proof (induction its arbitrary: w)
  case Nil
  show ?case by simp
next
  case (Cons a its)
  show ?case
  proof (cases "UnmarshalMap_Player a")
    case None
    then show ?thesis
      using Cons [of "Printf (''Failed to unmarshal player: '' @ cause_text UnmarshalTypeError) w"]
      by simp
  next
    case (Some q)
    show ?thesis
    proof (cases "refused w")
      case True
      then show ?thesis
        using Some
          Cons [of "Printf (''Failed to delete player '' @ PlayerId q @ '': ''
                      @ aws_text RequestFailure) (advance w)"]
        by (simp add: svc_DeleteItem_players consumed_step)
    next
      case False
      then show ?thesis
        using Some
          Cons [of "Printf (''Deleted player: '' @ PlayerId q)
                     ((advance w)\<lparr>players := remove_item ''playerId'' (PlayerId q) (players w)\<rparr>)"]
        by (auto simp: svc_DeleteItem_players consumed_step remove_item_def
            intro!: filter_cong)
    qed
  qed
qed

text \<open>
  The lines logged by the loop: one for each record, and for each decodable record the
  line that tells whether its delete was answered.
\<close>

lemma DeleteGame_players_logs:
  "\<exists>new. logs (DeleteGame_players its w) = logs w @ new
     \<and> length new = length its
     \<and> (\<forall>(p, f) \<in> set (zip (decoded_players its)
                           (consumed (length (decoded_players its)) (faults w))).
          (if f then ''Failed to delete player '' @ PlayerId p @ '': RequestFailure''
           else ''Deleted player: '' @ PlayerId p) \<in> set new)"
proof (induction its arbitrary: w)
  case Nil
  show ?case by simp
next
  case (Cons a its)
  show ?case
  proof (cases "UnmarshalMap_Player a")
    case None
    define l where "l = ''Failed to unmarshal player: '' @ cause_text UnmarshalTypeError"
    from Cons [of "Printf l w"] obtain new where
      n: "logs (DeleteGame_players its (Printf l w)) = logs w @ l # new"
      and len: "length new = length its"
      and rest: "\<forall>(p, f) \<in> set (zip (decoded_players its)
                           (consumed (length (decoded_players its)) (faults w))).
          (if f then ''Failed to delete player '' @ PlayerId p @ '': RequestFailure''
           else ''Deleted player: '' @ PlayerId p) \<in> set new"
      by auto
    have step: "DeleteGame_players (a # its) w = DeleteGame_players its (Printf l w)"
      using None by (simp add: l_def)
    have "logs (DeleteGame_players (a # its) w) = logs w @ (l # new)"
      unfolding step using n by simp
    moreover have "length (l # new) = length (a # its)"
      using len by simp
    moreover have "\<forall>(p, f) \<in> set (zip (decoded_players (a # its))
                           (consumed (length (decoded_players (a # its))) (faults w))).
          (if f then ''Failed to delete player '' @ PlayerId p @ '': RequestFailure''
           else ''Deleted player: '' @ PlayerId p) \<in> set (l # new)"
      using rest None by auto
    ultimately show ?thesis
      by blast
  next
    case (Some q)
    define l where "l = (if refused w
        then ''Failed to delete player '' @ PlayerId q @ '': RequestFailure''
        else ''Deleted player: '' @ PlayerId q)"
    define w1 where "w1 = (if refused w
        then Printf l (advance w)
        else Printf l
               ((advance w)\<lparr>players := remove_item ''playerId'' (PlayerId q) (players w)\<rparr>))"
    have step: "DeleteGame_players (a # its) w = DeleteGame_players its w1"
      using Some by (simp add: w1_def l_def svc_DeleteItem_players)
    have l1: "logs w1 = logs w @ [l]" and f1: "faults w1 = faults (advance w)"
      by (simp_all add: w1_def)
    from Cons [of w1] obtain new where
      n: "logs (DeleteGame_players its w1) = logs w1 @ new"
      and len: "length new = length its"
      and rest: "\<forall>(p, f) \<in> set (zip (decoded_players its)
                           (consumed (length (decoded_players its)) (faults w1))).
          (if f then ''Failed to delete player '' @ PlayerId p @ '': RequestFailure''
           else ''Deleted player: '' @ PlayerId p) \<in> set new"
      by auto
    have "logs (DeleteGame_players (a # its) w) = logs w @ (l # new)"
      unfolding step using n l1 by simp
    moreover have "length (l # new) = length (a # its)"
      using len by simp
    moreover have "\<forall>(p, f) \<in> set (zip (decoded_players (a # its))
                           (consumed (length (decoded_players (a # its))) (faults w))).
          (if f then ''Failed to delete player '' @ PlayerId p @ '': RequestFailure''
           else ''Deleted player: '' @ PlayerId p) \<in> set (l # new)"
      using rest Some by (auto simp: consumed_step f1 l_def)
    ultimately show ?thesis
      by blast
  qed
qed

text \<open>The shape of a run of \<^verbatim>\<open>DeleteGame\<close> that reports success.\<close>

lemma DeleteGame_success_shape:
  assumes "fst (DeleteGame r w) = Inr ()"
  shows "\<exists>w3. snd (DeleteGame r w)
                = DeleteGame_players (filter (has_key ''gameId'' (reqGameId r)) (players w)) w3
           \<and> players w3 = players w
           \<and> games w3 = remove_item ''gameId'' (reqGameId r) (games w)
           \<and> faults w3 = drop 3 (faults w)
           \<and> logs w3 = logs w @ [''Deleted game: '' @ reqGameId r]"
proof -
  have d3: "tl (tl (tl (faults w))) = drop 3 (faults w)"
    by (simp add: numeral_3_eq_3 drop_Suc drop_tl tl_drop)
  show ?thesis
    using assms d3
    by (auto simp: DeleteGame_def IsGameOwner_def svc_GetItem_def svc_DeleteItem_def
        svc_Query_def split: if_splits option.splits)
qed

lemma DeleteGame_owner_succeeds:
  assumes "answered 3 w" and "stored_game (reqGameId r) w = Some game"
    and "OwnerId game = reqPlayerId r"
  shows "fst (DeleteGame r w) = Inr ()"
proof -
  have nr: "\<not> refused w"
    using assms(1) by (rule answered_not_refused) simp
  have a2: "answered 2 (advance w)"
    using answered_advance [OF assms(1)] by simp
  then have nr2: "\<not> refused (advance w)"
    by (rule answered_not_refused) simp
  have "answered 1 (advance (advance w))"
    using answered_advance [OF a2] by simp
  then have nr3: "\<not> refused (advance (advance w))"
    by (rule answered_not_refused) simp
  have own: "IsGameOwner (reqGameId r) (reqPlayerId r) w = (Inr True, advance w)"
    using IsGameOwner_stored [OF nr assms(2), of "reqPlayerId r"] assms(3) by simp
  show ?thesis
    using nr2 nr3
    by (simp add: DeleteGame_def own svc_DeleteItem_def svc_Query_def advance_update)
qed

text \<open>
  A record of the query result that does not decode is skipped: the run reports success and
  the record stays.
\<close>

lemma DeleteGame_skips_undecodable:
  "fst (DeleteGame \<lparr>reqGameId = ''S1'', reqPlayerId = ''P1''\<rparr>
          (example_world\<lparr>players :=
             [(''playerId'', S ''P5''), (''playerName'', BOOL True), (''gameId'', S ''S1'')] # []\<rparr>))
     = Inr ()
   \<and> players (snd (DeleteGame \<lparr>reqGameId = ''S1'', reqPlayerId = ''P1''\<rparr>
          (example_world\<lparr>players :=
             [(''playerId'', S ''P5''), (''playerName'', BOOL True), (''gameId'', S ''S1'')] # []\<rparr>)))
     = [(''playerId'', S ''P5''), (''playerName'', BOOL True), (''gameId'', S ''S1'')] # []"
  by (simp add: DeleteGame_def IsGameOwner_def svc_GetItem_def svc_DeleteItem_def
      svc_Query_def advance_def Printf_def example_defs)

subsection \<open>The statuses of the join handler\<close>

text \<open>
  Which status \<^verbatim>\<open>handleJoinGame\<close> answers on a decoded request: 404 when the existence
  read is refused or finds nothing, then 500 when the write is refused or the player id
  is empty, 409 when the player id is taken, and 200 otherwise.
\<close>

lemma handleJoinGame_status:
  "StatusCode (fst (handleJoinGame (Some body) w)) =
     (if refused w \<or> lookup_item ''gameId'' (reqGameId body) (games w) = None then 404
      else if refused (advance w) \<or> reqPlayerId body = [] then 500
      else if lookup_item ''playerId'' (reqPlayerId body) (players w) \<noteq> None then 409
      else 200)"
proof (cases "refused w \<or> lookup_item ''gameId'' (reqGameId body) (games w) = None")
  case True
  then show ?thesis
    by (auto simp: handleJoinGame_def JoinGame_def svc_GetItem_def)
next
  case False
  then obtain it where j: "JoinGame body w = (Inr (), advance w)"
    by (auto simp: JoinGame_def svc_GetItem_def)
  have c: "fst (CreatePlayer body (advance w)) =
      (if refused (advance w) then Inl (Wrap ''failed to put item into DynamoDB: '' (Aws RequestFailure))
       else if reqPlayerId body = []
       then Inl (Wrap ''failed to put item into DynamoDB: '' (Aws ValidationException))
       else if lookup_item ''playerId'' (reqPlayerId body) (players w) \<noteq> None
       then Inl (Wrap ''failed to put item into DynamoDB: '' (Aws ConditionalCheckFailedException))
       else Inr ())"
    by (simp add: CreatePlayer_def svc_PutItem_def put_allowed_def)
  show ?thesis
    using False c
    by (cases "CreatePlayer body (advance w)") (auto simp: handleJoinGame_def j)
qed

section \<open>The claims\<close>




text \<open>
  C2. The ownership gate. When the Session is stored with an owner other than the
  requester and the service answers the authorization read, each of the five
  owner-restricted operations returns its \<^verbatim>\<open>unauthorized\<close> error, and the games table and
  the players table after the call are those before it.
\<close>

theorem ownership_gate:
  assumes "answered 1 w"
    and "stored_game g w = Some game"
    and "OwnerId game \<noteq> p"
  shows "(let r = \<lparr>reqGameId = g, reqPlayerId = p\<rparr>;
              rr = \<lparr>reqGameId = g, reqPlayerId = p, PlayerIdToRemove = t\<rparr> in
          fst (DeleteGame r w)
            = Inl (Errorf ''unauthorized: only the game owner can delete this game'')
        \<and> games (snd (DeleteGame r w)) = games w
        \<and> players (snd (DeleteGame r w)) = players w
        \<and> fst (RemovePlayer rr w)
            = Inl (Errorf ''unauthorized: only the game owner can remove a player'')
        \<and> games (snd (RemovePlayer rr w)) = games w
        \<and> players (snd (RemovePlayer rr w)) = players w
        \<and> fst (StartGame r w)
            = Inl (Errorf ''unauthorized: only the game owner can start this game'')
        \<and> games (snd (StartGame r w)) = games w
        \<and> players (snd (StartGame r w)) = players w
        \<and> fst (EndGame r w)
            = Inl (Errorf ''unauthorized: only the game owner can end this game'')
        \<and> games (snd (EndGame r w)) = games w
        \<and> players (snd (EndGame r w)) = players w
        \<and> fst (PlayerList r w)
            = Inl (Errorf ''unauthorized: only the game owner can end this game'')
        \<and> games (snd (PlayerList r w)) = games w
        \<and> players (snd (PlayerList r w)) = players w)"
proof -
  have nr: "\<not> refused w"
    using assms(1) by (rule answered_not_refused) simp
  have own: "IsGameOwner g p w = (Inr False, advance w)"
    using IsGameOwner_stored [OF nr assms(2), of p] assms(3) by simp
  show ?thesis
    by (simp add: Let_def DeleteGame_def RemovePlayer_def StartGame_def EndGame_def
        PlayerList_def own)
qed

theorem ownership_gate_witness:
  "answered 1 example_world
   \<and> stored_game ''S1'' example_world
       = Some \<lparr>GameId = ''S1'', GameName = ''Settlers'', HasGameStarted = False,
               OwnerId = ''P1''\<rparr>
   \<and> fst (DeleteGame \<lparr>reqGameId = ''S1'', reqPlayerId = ''P2''\<rparr> example_world)
       = Inl (Errorf ''unauthorized: only the game owner can delete this game'')
   \<and> games (snd (DeleteGame \<lparr>reqGameId = ''S1'', reqPlayerId = ''P2''\<rparr> example_world))
       = games example_world
   \<and> players (snd (DeleteGame \<lparr>reqGameId = ''S1'', reqPlayerId = ''P2''\<rparr> example_world))
       = players example_world
   \<and> fst (RemovePlayer \<lparr>reqGameId = ''S1'', reqPlayerId = ''P2'', PlayerIdToRemove = ''P1''\<rparr>
            example_world)
       = Inl (Errorf ''unauthorized: only the game owner can remove a player'')"
proof -
  have a: "answered 1 example_world"
    by (simp add: example_defs)
  have s: "stored_game ''S1'' example_world
       = Some \<lparr>GameId = ''S1'', GameName = ''Settlers'', HasGameStarted = False,
               OwnerId = ''P1''\<rparr>"
    by (simp add: example_defs)
  have o: "OwnerId \<lparr>GameId = ''S1'', GameName = ''Settlers'', HasGameStarted = False,
               OwnerId = ''P1''\<rparr> \<noteq> ''P2''"
    by simp
  show ?thesis
    using a s ownership_gate [OF a s o, of "''P1''"] by (simp add: Let_def)
qed




text \<open>
  C4. The join of \<^verbatim>\<open>handleJoinGame\<close> at a stored Session whose existence read is refused
  by the service: \<^verbatim>\<open>JoinGame\<close> returns the wrapped error of the service, not its
  \<^verbatim>\<open>not found\<close> error, and the handler answers 404 with the text \<^verbatim>\<open>Game not found\<close>.
\<close>

theorem handleJoinGame_refused_read_is_404:
  "stored_game ''S1'' (example_world\<lparr>faults := [True]\<rparr>)
     = Some \<lparr>GameId = ''S1'', GameName = ''Settlers'', HasGameStarted = False,
             OwnerId = ''P1''\<rparr>
   \<and> fst (JoinGame \<lparr>reqGameId = ''S1'', reqPlayerId = ''P9'', joinPlayerName = ''Eve''\<rparr>
            (example_world\<lparr>faults := [True]\<rparr>))
       = Inl (Wrap ''failed to query DynamoDB: '' (Aws RequestFailure))
   \<and> fst (handleJoinGame
            (Some \<lparr>reqGameId = ''S1'', reqPlayerId = ''P9'', joinPlayerName = ''Eve''\<rparr>)
            (example_world\<lparr>faults := [True]\<rparr>))
       = \<lparr>StatusCode = 404,
          Body = ''Game not found: failed to query DynamoDB: RequestFailure'',
          Headers = []\<rparr>"
  by (simp add: handleJoinGame_def JoinGame_def svc_GetItem_def example_defs)

text \<open>
  C5. The cascade of \<^verbatim>\<open>DeleteGame\<close> is best-effort. When the owner asks and the first three
  calls (the authorization read, the delete of the Session, the query) are answered, then
  whatever the service does with the deletes of the Members, the operation reports
  success and the Session is removed and stays so. The loop sends one delete for each
  record of the query result that decodes, in order, each answered or refused by its own
  entry of the schedule after the first three: the players table at the end is the one at
  the start without the items under the keys of the answered deletes, so that a delete
  after a refused one is still made and a refused one removes nothing. One line is logged
  for each record of the result, after the line of the Session, and the line of a
  decodable record says whether its delete was answered.
\<close>

theorem DeleteGame_best_effort:
  assumes "answered 3 w"
    and "stored_game (reqGameId r) w = Some game"
    and "OwnerId game = reqPlayerId r"
  shows "(let items = filter (has_key ''gameId'' (reqGameId r)) (players w);
              ps = decoded_players items;
              outcomes = zip ps (consumed (length ps) (drop 3 (faults w)));
              w' = snd (DeleteGame r w)
          in fst (DeleteGame r w) = Inr ()
           \<and> games w' = remove_item ''gameId'' (reqGameId r) (games w)
           \<and> lookup_item ''gameId'' (reqGameId r) (games w') = None
           \<and> players w' =
               filter (\<lambda>it. \<forall>(p, f) \<in> set outcomes.
                              f \<or> \<not> has_key ''playerId'' (PlayerId p) it) (players w)
           \<and> length (new_logs w w') = Suc (length items)
           \<and> (\<forall>(p, f) \<in> set outcomes.
                (if f then ''Failed to delete player '' @ PlayerId p @ '': RequestFailure''
                 else ''Deleted player: '' @ PlayerId p) \<in> set (new_logs w w')))"
proof -
  let ?items = "filter (has_key ''gameId'' (reqGameId r)) (players w)"
  have ok: "fst (DeleteGame r w) = Inr ()"
    using assms by (rule DeleteGame_owner_succeeds)
  from DeleteGame_success_shape [OF ok] obtain w3 where
    w': "snd (DeleteGame r w) = DeleteGame_players ?items w3"
    and p3: "players w3 = players w"
    and g3: "games w3 = remove_item ''gameId'' (reqGameId r) (games w)"
    and f3: "faults w3 = drop 3 (faults w)"
    and l3: "logs w3 = logs w @ [''Deleted game: '' @ reqGameId r]"
    by blast
  from DeleteGame_players_logs [of ?items w3] obtain new where
    n: "logs (snd (DeleteGame r w)) = logs w3 @ new"
    and len: "length new = length ?items"
    and lines: "\<forall>(p, f) \<in> set (zip (decoded_players ?items)
                           (consumed (length (decoded_players ?items)) (drop 3 (faults w)))).
          (if f then ''Failed to delete player '' @ PlayerId p @ '': RequestFailure''
           else ''Deleted player: '' @ PlayerId p) \<in> set new"
    unfolding w' f3 by blast
  have nl: "new_logs w (snd (DeleteGame r w)) = (''Deleted game: '' @ reqGameId r) # new"
    using n l3 by (simp add: new_logs_def)
  have g: "games (snd (DeleteGame r w)) = remove_item ''gameId'' (reqGameId r) (games w)"
    by (simp add: w' g3)
  have t: "players (snd (DeleteGame r w)) =
      filter (\<lambda>it. \<forall>(p, f) \<in> set (zip (decoded_players ?items)
                          (consumed (length (decoded_players ?items)) (drop 3 (faults w)))).
               f \<or> \<not> has_key ''playerId'' (PlayerId p) it) (players w)"
    unfolding w' DeleteGame_players_table f3 p3 by simp
  have ll: "length (new_logs w (snd (DeleteGame r w))) = Suc (length ?items)"
    unfolding nl using len by simp
  have lm: "\<forall>(p, f) \<in> set (zip (decoded_players ?items)
                           (consumed (length (decoded_players ?items)) (drop 3 (faults w)))).
          (if f then ''Failed to delete player '' @ PlayerId p @ '': RequestFailure''
           else ''Deleted player: '' @ PlayerId p) \<in> set (new_logs w (snd (DeleteGame r w)))"
    unfolding nl using lines by auto
  show ?thesis
    unfolding Let_def using ok g t ll lm by simp
qed

theorem DeleteGame_best_effort_witness:
  "answered 3 (example_world_three\<lparr>faults := [False, False, False, True, True, False]\<rparr>)
   \<and> fst (DeleteGame \<lparr>reqGameId = ''S1'', reqPlayerId = ''P1''\<rparr>
            (example_world_three\<lparr>faults := [False, False, False, True, True, False]\<rparr>))
       = Inr ()
   \<and> lookup_item ''gameId'' ''S1''
        (games (snd (DeleteGame \<lparr>reqGameId = ''S1'', reqPlayerId = ''P1''\<rparr>
           (example_world_three\<lparr>faults := [False, False, False, True, True, False]\<rparr>))))
       = None
   \<and> players (snd (DeleteGame \<lparr>reqGameId = ''S1'', reqPlayerId = ''P1''\<rparr>
           (example_world_three\<lparr>faults := [False, False, False, True, True, False]\<rparr>)))
       = [MarshalMap_Player \<lparr>PlayerId = ''P1'', PlayerName = ''Ann'', PlayerGameId = ''S1''\<rparr>,
          MarshalMap_Player \<lparr>PlayerId = ''P2'', PlayerName = ''Bob'', PlayerGameId = ''S1''\<rparr>,
          MarshalMap_Player \<lparr>PlayerId = ''P3'', PlayerName = ''Cy'', PlayerGameId = ''S2''\<rparr>]
   \<and> new_logs (example_world_three\<lparr>faults := [False, False, False, True, True, False]\<rparr>)
        (snd (DeleteGame \<lparr>reqGameId = ''S1'', reqPlayerId = ''P1''\<rparr>
           (example_world_three\<lparr>faults := [False, False, False, True, True, False]\<rparr>)))
       = [''Deleted game: S1'', ''Failed to delete player P1: RequestFailure'',
          ''Failed to delete player P2: RequestFailure'', ''Deleted player: P4'']"
proof -
  let ?w = "example_world_three\<lparr>faults := [False, False, False, True, True, False]\<rparr>"
  let ?r = "\<lparr>reqGameId = ''S1'', reqPlayerId = ''P1''\<rparr>"
  let ?P1 = "MarshalMap_Player \<lparr>PlayerId = ''P1'', PlayerName = ''Ann'', PlayerGameId = ''S1''\<rparr>"
  let ?P2 = "MarshalMap_Player \<lparr>PlayerId = ''P2'', PlayerName = ''Bob'', PlayerGameId = ''S1''\<rparr>"
  let ?P3 = "MarshalMap_Player \<lparr>PlayerId = ''P3'', PlayerName = ''Cy'', PlayerGameId = ''S2''\<rparr>"
  let ?P4 = "MarshalMap_Player \<lparr>PlayerId = ''P4'', PlayerName = ''Dan'', PlayerGameId = ''S1''\<rparr>"
  have a: "answered 3 ?w"
    by (simp add: answered_def)
  have s: "stored_game (reqGameId ?r) ?w
       = Some \<lparr>GameId = ''S1'', GameName = ''Settlers'', HasGameStarted = False,
               OwnerId = ''P1''\<rparr>"
    by (simp add: example_world_three_def example_defs)
  have o: "OwnerId \<lparr>GameId = ''S1'', GameName = ''Settlers'', HasGameStarted = False,
               OwnerId = ''P1''\<rparr> = reqPlayerId ?r"
    by simp
  have pl: "players ?w = [?P1, ?P2, ?P3, ?P4]"
    by (simp add: example_world_three_def example_world_def)
  have items: "filter (has_key ''gameId'' (reqGameId ?r)) (players ?w) = [?P1, ?P2, ?P4]"
    unfolding pl by (simp add: has_key_def MarshalMap_Player_def encodeString_def)
  have c: "consumed 3 (drop 3 (faults ?w)) = [True, True, False]"
    by (simp add: numeral_3_eq_3)
  have l: "new_logs ?w (snd (DeleteGame ?r ?w))
       = [''Deleted game: S1'', ''Failed to delete player P1: RequestFailure'',
          ''Failed to delete player P2: RequestFailure'', ''Deleted player: P4'']"
    by (simp add: DeleteGame_def IsGameOwner_def svc_GetItem_def svc_DeleteItem_def
        svc_Query_def new_logs_def advance_def Printf_def example_world_three_def example_defs)
  have t: "players (snd (DeleteGame ?r ?w)) =
      filter (\<lambda>it. \<forall>(p, f) \<in> set (zip (decoded_players [?P1, ?P2, ?P4])
                          (consumed (length (decoded_players [?P1, ?P2, ?P4]))
                             (drop 3 (faults ?w)))).
               f \<or> \<not> has_key ''playerId'' (PlayerId p) it) (players ?w)"
    using DeleteGame_best_effort [OF a s o] unfolding Let_def items by blast
  have pl0: "players example_world_three = [?P1, ?P2, ?P3, ?P4]"
    by (simp add: example_world_three_def example_world_def)
  have "players (snd (DeleteGame ?r ?w)) = [?P1, ?P2, ?P3]"
    unfolding t by (simp add: c pl0)
  then show ?thesis
    using a l DeleteGame_best_effort [OF a s o] unfolding Let_def by simp
qed

text \<open>
  C6. \<^verbatim>\<open>IsGameOwner\<close>, when the service answers the read: with no item under the session
  id it fails with its \<^verbatim>\<open>not found\<close> error; with a stored Session it returns whether the
  stored owner is the given player. In every case, also when the read is refused or the
  item does not decode, the two tables are unchanged.
\<close>

theorem IsGameOwner_spec:
  "(answered 1 w \<and> lookup_item ''gameId'' g (games w) = None \<longrightarrow>
      fst (IsGameOwner g p w) = Inl (Errorf (''game with ID '' @ g @ '' not found'')))
   \<and> (\<forall>game. answered 1 w \<and> stored_game g w = Some game \<longrightarrow>
        fst (IsGameOwner g p w) = Inr (OwnerId game = p))
   \<and> games (snd (IsGameOwner g p w)) = games w
   \<and> players (snd (IsGameOwner g p w)) = players w"
  using IsGameOwner_frame [of g p w] answered_not_refused [of 1 w]
  by (auto simp: IsGameOwner_stored IsGameOwner_absent)

theorem IsGameOwner_spec_witness:
  "answered 1 example_world
   \<and> lookup_item ''gameId'' ''S9'' (games example_world) = None
   \<and> fst (IsGameOwner ''S9'' ''P1'' example_world) = Inl (Errorf ''game with ID S9 not found'')
   \<and> fst (IsGameOwner ''S1'' ''P1'' example_world) = Inr True
   \<and> fst (IsGameOwner ''S1'' ''P2'' example_world) = Inr False"
proof -
  have a: "answered 1 example_world"
    by (simp add: example_defs)
  have n: "lookup_item ''gameId'' ''S9'' (games example_world) = None"
    by (simp add: example_defs)
  have s: "stored_game ''S1'' example_world
       = Some \<lparr>GameId = ''S1'', GameName = ''Settlers'', HasGameStarted = False,
               OwnerId = ''P1''\<rparr>"
    by (simp add: example_defs)
  show ?thesis
    using a n s IsGameOwner_spec [of example_world "''S9''" "''P1''"]
      IsGameOwner_spec [of example_world "''S1''" "''P1''"]
      IsGameOwner_spec [of example_world "''S1''" "''P2''"]
    by simp
qed

text \<open>
  C7. Start and end are idempotent for the owner of a stored Session, whatever its flag
  is: with the four calls of the two runs answered, \<^verbatim>\<open>StartGame\<close> twice in a row succeeds
  both times and the stored Session is the original one with the flag true after the
  first and after the second run; \<^verbatim>\<open>EndGame\<close> twice likewise, with the flag false.
\<close>

theorem StartGame_EndGame_idempotent:
  assumes "answered 4 w"
    and "stored_game (reqGameId r) w = Some game"
    and "OwnerId game = reqPlayerId r"
  shows "fst (StartGame r w) = Inr ()
       \<and> stored_game (reqGameId r) (snd (StartGame r w)) = Some (game\<lparr>HasGameStarted := True\<rparr>)
       \<and> fst (StartGame r (snd (StartGame r w))) = Inr ()
       \<and> stored_game (reqGameId r) (snd (StartGame r (snd (StartGame r w))))
           = Some (game\<lparr>HasGameStarted := True\<rparr>)
       \<and> fst (EndGame r w) = Inr ()
       \<and> stored_game (reqGameId r) (snd (EndGame r w)) = Some (game\<lparr>HasGameStarted := False\<rparr>)
       \<and> fst (EndGame r (snd (EndGame r w))) = Inr ()
       \<and> stored_game (reqGameId r) (snd (EndGame r (snd (EndGame r w))))
           = Some (game\<lparr>HasGameStarted := False\<rparr>)"
proof -
  have a2: "answered 2 w"
    using assms(1) by (rule answered_mono) simp
  note s1 = StartGame_owner [OF a2 assms(2,3)]
  note e1 = EndGame_owner [OF a2 assms(2,3)]
  have as: "answered 2 (snd (StartGame r w))"
    using answered_drop [of 2 2 w] assms(1) s1(4) by simp
  have ae: "answered 2 (snd (EndGame r w))"
    using answered_drop [of 2 2 w] assms(1) e1(4) by simp
  have os: "OwnerId (game\<lparr>HasGameStarted := True\<rparr>) = reqPlayerId r"
    using assms(3) by simp
  have oe: "OwnerId (game\<lparr>HasGameStarted := False\<rparr>) = reqPlayerId r"
    using assms(3) by simp
  note s2 = StartGame_owner [OF as s1(2) os]
  note e2 = EndGame_owner [OF ae e1(2) oe]
  show ?thesis
    using s1(1,2) s2(1,2) e1(1,2) e2(1,2) by simp
qed

theorem StartGame_EndGame_idempotent_witness:
  "answered 4 example_world
   \<and> stored_game ''S1'' example_world
       = Some \<lparr>GameId = ''S1'', GameName = ''Settlers'', HasGameStarted = False,
               OwnerId = ''P1''\<rparr>
   \<and> fst (StartGame \<lparr>reqGameId = ''S1'', reqPlayerId = ''P1''\<rparr> example_world) = Inr ()
   \<and> fst (StartGame \<lparr>reqGameId = ''S1'', reqPlayerId = ''P1''\<rparr>
            (snd (StartGame \<lparr>reqGameId = ''S1'', reqPlayerId = ''P1''\<rparr> example_world)))
       = Inr ()
   \<and> stored_game ''S1''
        (snd (StartGame \<lparr>reqGameId = ''S1'', reqPlayerId = ''P1''\<rparr>
               (snd (StartGame \<lparr>reqGameId = ''S1'', reqPlayerId = ''P1''\<rparr> example_world))))
       = Some \<lparr>GameId = ''S1'', GameName = ''Settlers'', HasGameStarted = True,
               OwnerId = ''P1''\<rparr>
   \<and> fst (EndGame \<lparr>reqGameId = ''S1'', reqPlayerId = ''P1''\<rparr>
            (snd (EndGame \<lparr>reqGameId = ''S1'', reqPlayerId = ''P1''\<rparr> example_world)))
       = Inr ()
   \<and> stored_game ''S1''
        (snd (EndGame \<lparr>reqGameId = ''S1'', reqPlayerId = ''P1''\<rparr>
               (snd (EndGame \<lparr>reqGameId = ''S1'', reqPlayerId = ''P1''\<rparr> example_world))))
       = Some \<lparr>GameId = ''S1'', GameName = ''Settlers'', HasGameStarted = False,
               OwnerId = ''P1''\<rparr>"
proof -
  have a: "answered 4 example_world"
    by (simp add: example_defs)
  have s: "stored_game (reqGameId \<lparr>reqGameId = ''S1'', reqPlayerId = ''P1''\<rparr>) example_world
       = Some \<lparr>GameId = ''S1'', GameName = ''Settlers'', HasGameStarted = False,
               OwnerId = ''P1''\<rparr>"
    by (simp add: example_defs)
  have o: "OwnerId \<lparr>GameId = ''S1'', GameName = ''Settlers'', HasGameStarted = False,
               OwnerId = ''P1''\<rparr> = reqPlayerId \<lparr>reqGameId = ''S1'', reqPlayerId = ''P1''\<rparr>"
    by simp
  show ?thesis
    using a s StartGame_EndGame_idempotent [OF a s o] by simp
qed

text \<open>
  C8. \<^verbatim>\<open>LeaveGame\<close> makes one call, the delete of the player's key, with no read before it.
  In every world its only possible error is the refusal of that call, never a message of
  its own such as \<^verbatim>\<open>unauthorized\<close>, and the games table is unchanged. When the call is
  answered it succeeds, no item is left under the key, and when there was none the
  players table is unchanged.
\<close>

theorem LeaveGame_unconditional:
  "(fst (LeaveGame r w) = Inr ()
      \<or> fst (LeaveGame r w) = Inl (Wrap ''failed to remove player: '' (Aws RequestFailure)))
   \<and> (\<forall>m. fst (LeaveGame r w) \<noteq> Inl (Errorf m))
   \<and> games (snd (LeaveGame r w)) = games w
   \<and> (answered 1 w \<longrightarrow>
        fst (LeaveGame r w) = Inr ()
      \<and> players (snd (LeaveGame r w)) = remove_item ''playerId'' (reqPlayerId r) (players w)
      \<and> lookup_item ''playerId'' (reqPlayerId r) (players (snd (LeaveGame r w))) = None
      \<and> (lookup_item ''playerId'' (reqPlayerId r) (players w) = None \<longrightarrow>
           players (snd (LeaveGame r w)) = players w))"
  using answered_not_refused [of 1 w]
  by (auto simp: LeaveGame_def svc_DeleteItem_def remove_absent)

theorem LeaveGame_unconditional_witness:
  "answered 1 example_world
   \<and> lookup_item ''playerId'' ''P7'' (players example_world) = None
   \<and> fst (LeaveGame \<lparr>reqGameId = ''S1'', reqPlayerId = ''P7''\<rparr> example_world) = Inr ()
   \<and> players (snd (LeaveGame \<lparr>reqGameId = ''S1'', reqPlayerId = ''P7''\<rparr> example_world))
       = players example_world
   \<and> fst (LeaveGame \<lparr>reqGameId = ''S2'', reqPlayerId = ''P1''\<rparr> example_world) = Inr ()
   \<and> lookup_item ''playerId'' ''P1''
        (players (snd (LeaveGame \<lparr>reqGameId = ''S2'', reqPlayerId = ''P1''\<rparr> example_world)))
       = None"
proof -
  have a: "answered 1 example_world"
    by (simp add: example_defs)
  have n: "lookup_item ''playerId'' ''P7'' (players example_world) = None"
    by (simp add: example_defs)
  show ?thesis
    using a n
      LeaveGame_unconditional [of "\<lparr>reqGameId = ''S1'', reqPlayerId = ''P7''\<rparr>" example_world]
      LeaveGame_unconditional [of "\<lparr>reqGameId = ''S2'', reqPlayerId = ''P1''\<rparr>" example_world]
    by (simp add: remove_absent)
qed

text \<open>
  C9. \<^verbatim>\<open>RemovePlayer\<close> deletes by the target's key alone. Whenever the requester owns the
  stored Session of the request and the two calls are answered, it succeeds and no item is
  left under the target's key, whatever that record was: nothing is assumed of the target,
  so it may be a Member of another Session. The games table is unchanged.
\<close>

theorem RemovePlayer_any_target:
  assumes "answered 2 w"
    and "stored_game (reqGameId r) w = Some game"
    and "OwnerId game = reqPlayerId r"
  shows "fst (RemovePlayer r w) = Inr ()
       \<and> players (snd (RemovePlayer r w))
           = remove_item ''playerId'' (PlayerIdToRemove r) (players w)
       \<and> lookup_item ''playerId'' (PlayerIdToRemove r) (players (snd (RemovePlayer r w))) = None
       \<and> games (snd (RemovePlayer r w)) = games w"
proof -
  have nr: "\<not> refused w"
    using assms(1) by (rule answered_not_refused) simp
  have "answered 1 (advance w)"
    using answered_advance [OF assms(1)] by simp
  then have nr2: "\<not> refused (advance w)"
    by (rule answered_not_refused) simp
  have own: "IsGameOwner (reqGameId r) (reqPlayerId r) w = (Inr True, advance w)"
    using IsGameOwner_stored [OF nr assms(2), of "reqPlayerId r"] assms(3) by simp
  show ?thesis
    by (simp add: RemovePlayer_def own svc_DeleteItem_def nr2)
qed

theorem RemovePlayer_any_target_witness:
  "answered 2 example_world
   \<and> stored_game ''S1'' example_world
       = Some \<lparr>GameId = ''S1'', GameName = ''Settlers'', HasGameStarted = False,
               OwnerId = ''P1''\<rparr>
   \<and> stored_player ''P3'' example_world
       = Some \<lparr>PlayerId = ''P3'', PlayerName = ''Cy'', PlayerGameId = ''S2''\<rparr>
   \<and> fst (RemovePlayer \<lparr>reqGameId = ''S1'', reqPlayerId = ''P1'', PlayerIdToRemove = ''P3''\<rparr>
            example_world) = Inr ()
   \<and> stored_player ''P3''
        (snd (RemovePlayer \<lparr>reqGameId = ''S1'', reqPlayerId = ''P1'', PlayerIdToRemove = ''P3''\<rparr>
               example_world)) = None"
proof -
  have a: "answered 2 example_world"
    by (simp add: example_defs)
  have s: "stored_game
             (reqGameId \<lparr>reqGameId = ''S1'', reqPlayerId = ''P1'', PlayerIdToRemove = ''P3''\<rparr>)
             example_world
       = Some \<lparr>GameId = ''S1'', GameName = ''Settlers'', HasGameStarted = False,
               OwnerId = ''P1''\<rparr>"
    by (simp add: example_defs)
  have o: "OwnerId \<lparr>GameId = ''S1'', GameName = ''Settlers'', HasGameStarted = False,
               OwnerId = ''P1''\<rparr>
           = reqPlayerId \<lparr>reqGameId = ''S1'', reqPlayerId = ''P1'', PlayerIdToRemove = ''P3''\<rparr>"
    by simp
  have p: "stored_player ''P3'' example_world
       = Some \<lparr>PlayerId = ''P3'', PlayerName = ''Cy'', PlayerGameId = ''S2''\<rparr>"
    by (simp add: example_defs)
  show ?thesis
    using a s p RemovePlayer_any_target [OF a s o] by (simp add: stored_player_def)
qed

text \<open>
  C10. \<^verbatim>\<open>DeleteGame\<close> is not atomic on error. When the owner asks, the authorization read
  and the delete of the Session are answered and the query of the Members is refused, the
  operation returns the error of the query, the Session is already gone and the players
  table is untouched.
\<close>

theorem DeleteGame_query_refused:
  assumes "take 3 (faults w) = [False, False, True]"
    and "stored_game (reqGameId r) w = Some game"
    and "OwnerId game = reqPlayerId r"
  shows "fst (DeleteGame r w)
           = Inl (Wrap ''failed to query players by gameId: '' (Aws RequestFailure))
       \<and> lookup_item ''gameId'' (reqGameId r) (games (snd (DeleteGame r w))) = None
       \<and> players (snd (DeleteGame r w)) = players w"
proof -
  note f = faults_take3 [OF assms(1)]
  have own: "IsGameOwner (reqGameId r) (reqPlayerId r) w = (Inr True, advance w)"
    using IsGameOwner_stored [OF _ assms(2), of "reqPlayerId r"] f(1) assms(3) by simp
  show ?thesis
    using f(2,3)
    by (simp add: DeleteGame_def own svc_DeleteItem_def svc_Query_def advance_update)
qed

theorem DeleteGame_query_refused_witness:
  "take 3 (faults (example_world\<lparr>faults := [False, False, True]\<rparr>)) = [False, False, True]
   \<and> lookup_item ''gameId'' ''S1'' (games example_world) \<noteq> None
   \<and> fst (DeleteGame \<lparr>reqGameId = ''S1'', reqPlayerId = ''P1''\<rparr>
            (example_world\<lparr>faults := [False, False, True]\<rparr>))
       = Inl (Wrap ''failed to query players by gameId: '' (Aws RequestFailure))
   \<and> lookup_item ''gameId'' ''S1''
        (games (snd (DeleteGame \<lparr>reqGameId = ''S1'', reqPlayerId = ''P1''\<rparr>
                       (example_world\<lparr>faults := [False, False, True]\<rparr>)))) = None
   \<and> players (snd (DeleteGame \<lparr>reqGameId = ''S1'', reqPlayerId = ''P1''\<rparr>
                       (example_world\<lparr>faults := [False, False, True]\<rparr>)))
       = players example_world"
proof -
  have t: "take 3 (faults (example_world\<lparr>faults := [False, False, True]\<rparr>))
             = [False, False, True]"
    by simp
  have e: "lookup_item ''gameId'' ''S1'' (games example_world) \<noteq> None"
    by (simp add: example_defs)
  have s: "stored_game (reqGameId \<lparr>reqGameId = ''S1'', reqPlayerId = ''P1''\<rparr>)
             (example_world\<lparr>faults := [False, False, True]\<rparr>)
       = Some \<lparr>GameId = ''S1'', GameName = ''Settlers'', HasGameStarted = False,
               OwnerId = ''P1''\<rparr>"
    using example_stored_S1 by simp
  have o: "OwnerId \<lparr>GameId = ''S1'', GameName = ''Settlers'', HasGameStarted = False,
               OwnerId = ''P1''\<rparr> = reqPlayerId \<lparr>reqGameId = ''S1'', reqPlayerId = ''P1''\<rparr>"
    by simp
  show ?thesis
    using t e DeleteGame_query_refused [OF t s o] by simp
qed

end
